theory Spec2Isabelle
  imports Main
begin

section \<open>Strings and character classes\<close>

text \<open>
  Python strings are sequences of Unicode code points, so a string is a list of code
  points here. ASCII literals of the source are written with \<open>u\<close>; Japanese literals
  are written as their code points, with the source text in a comment.
\<close>

type_synonym ustring = "nat list"

definition u :: "string \<Rightarrow> ustring" where
  "u s = map of_char s"

definition in_ranges :: "(nat \<times> nat) list \<Rightarrow> nat \<Rightarrow> bool" where
  "in_ranges rs c = list_ex (\<lambda>(lo, hi). lo \<le> c \<and> c \<le> hi) rs"

text \<open>
  The class \<open>\d\<close> of the \<open>re\<close> module on a \<open>str\<close> pattern: the code points of
  general category Nd (Unicode 14.0, the database of CPython 3.11), as closed ranges.
\<close>

definition digit_ranges :: "(nat \<times> nat) list" where
  "digit_ranges = [
    (48, 57), (1632, 1641), (1776, 1785), (1984, 1993), (2406, 2415), (2534, 2543),
    (2662, 2671), (2790, 2799), (2918, 2927), (3046, 3055), (3174, 3183), (3302, 3311),
    (3430, 3439), (3558, 3567), (3664, 3673), (3792, 3801), (3872, 3881), (4160, 4169),
    (4240, 4249), (6112, 6121), (6160, 6169), (6470, 6479), (6608, 6617), (6784, 6793),
    (6800, 6809), (6992, 7001), (7088, 7097), (7232, 7241), (7248, 7257), (42528, 42537),
    (43216, 43225), (43264, 43273), (43472, 43481), (43504, 43513), (43600, 43609), (44016, 44025),
    (65296, 65305), (66720, 66729), (68912, 68921), (69734, 69743), (69872, 69881), (69942, 69951),
    (70096, 70105), (70384, 70393), (70736, 70745), (70864, 70873), (71248, 71257), (71360, 71369),
    (71472, 71481), (71904, 71913), (72016, 72025), (72784, 72793), (73040, 73049), (73120, 73129),
    (92768, 92777), (92864, 92873), (93008, 93017), (120782, 120831), (123200, 123209), (123632, 123641),
    (125264, 125273), (130032, 130041)]"

definition is_digit :: "nat \<Rightarrow> bool" where
  "is_digit c = in_ranges digit_ranges c"

text \<open>
  The class \<open>\w\<close> of the \<open>re\<close> module on a \<open>str\<close> pattern: the code points for
  which \<open>str.isalnum\<close> holds, and the underscore (same database), as closed ranges.
\<close>

definition word_ranges :: "(nat \<times> nat) list" where
  "word_ranges = [
    (48, 57), (65, 90), (95, 95), (97, 122), (170, 170), (178, 179),
    (181, 181), (185, 186), (188, 190), (192, 214), (216, 246), (248, 705),
    (710, 721), (736, 740), (748, 748), (750, 750), (880, 884), (886, 887),
    (890, 893), (895, 895), (902, 902), (904, 906), (908, 908), (910, 929),
    (931, 1013), (1015, 1153), (1162, 1327), (1329, 1366), (1369, 1369), (1376, 1416),
    (1488, 1514), (1519, 1522), (1568, 1610), (1632, 1641), (1646, 1647), (1649, 1747),
    (1749, 1749), (1765, 1766), (1774, 1788), (1791, 1791), (1808, 1808), (1810, 1839),
    (1869, 1957), (1969, 1969), (1984, 2026), (2036, 2037), (2042, 2042), (2048, 2069),
    (2074, 2074), (2084, 2084), (2088, 2088), (2112, 2136), (2144, 2154), (2160, 2183),
    (2185, 2190), (2208, 2249), (2308, 2361), (2365, 2365), (2384, 2384), (2392, 2401),
    (2406, 2415), (2417, 2432), (2437, 2444), (2447, 2448), (2451, 2472), (2474, 2480),
    (2482, 2482), (2486, 2489), (2493, 2493), (2510, 2510), (2524, 2525), (2527, 2529),
    (2534, 2545), (2548, 2553), (2556, 2556), (2565, 2570), (2575, 2576), (2579, 2600),
    (2602, 2608), (2610, 2611), (2613, 2614), (2616, 2617), (2649, 2652), (2654, 2654),
    (2662, 2671), (2674, 2676), (2693, 2701), (2703, 2705), (2707, 2728), (2730, 2736),
    (2738, 2739), (2741, 2745), (2749, 2749), (2768, 2768), (2784, 2785), (2790, 2799),
    (2809, 2809), (2821, 2828), (2831, 2832), (2835, 2856), (2858, 2864), (2866, 2867),
    (2869, 2873), (2877, 2877), (2908, 2909), (2911, 2913), (2918, 2927), (2929, 2935),
    (2947, 2947), (2949, 2954), (2958, 2960), (2962, 2965), (2969, 2970), (2972, 2972),
    (2974, 2975), (2979, 2980), (2984, 2986), (2990, 3001), (3024, 3024), (3046, 3058),
    (3077, 3084), (3086, 3088), (3090, 3112), (3114, 3129), (3133, 3133), (3160, 3162),
    (3165, 3165), (3168, 3169), (3174, 3183), (3192, 3198), (3200, 3200), (3205, 3212),
    (3214, 3216), (3218, 3240), (3242, 3251), (3253, 3257), (3261, 3261), (3293, 3294),
    (3296, 3297), (3302, 3311), (3313, 3314), (3332, 3340), (3342, 3344), (3346, 3386),
    (3389, 3389), (3406, 3406), (3412, 3414), (3416, 3425), (3430, 3448), (3450, 3455),
    (3461, 3478), (3482, 3505), (3507, 3515), (3517, 3517), (3520, 3526), (3558, 3567),
    (3585, 3632), (3634, 3635), (3648, 3654), (3664, 3673), (3713, 3714), (3716, 3716),
    (3718, 3722), (3724, 3747), (3749, 3749), (3751, 3760), (3762, 3763), (3773, 3773),
    (3776, 3780), (3782, 3782), (3792, 3801), (3804, 3807), (3840, 3840), (3872, 3891),
    (3904, 3911), (3913, 3948), (3976, 3980), (4096, 4138), (4159, 4169), (4176, 4181),
    (4186, 4189), (4193, 4193), (4197, 4198), (4206, 4208), (4213, 4225), (4238, 4238),
    (4240, 4249), (4256, 4293), (4295, 4295), (4301, 4301), (4304, 4346), (4348, 4680),
    (4682, 4685), (4688, 4694), (4696, 4696), (4698, 4701), (4704, 4744), (4746, 4749),
    (4752, 4784), (4786, 4789), (4792, 4798), (4800, 4800), (4802, 4805), (4808, 4822),
    (4824, 4880), (4882, 4885), (4888, 4954), (4969, 4988), (4992, 5007), (5024, 5109),
    (5112, 5117), (5121, 5740), (5743, 5759), (5761, 5786), (5792, 5866), (5870, 5880),
    (5888, 5905), (5919, 5937), (5952, 5969), (5984, 5996), (5998, 6000), (6016, 6067),
    (6103, 6103), (6108, 6108), (6112, 6121), (6128, 6137), (6160, 6169), (6176, 6264),
    (6272, 6276), (6279, 6312), (6314, 6314), (6320, 6389), (6400, 6430), (6470, 6509),
    (6512, 6516), (6528, 6571), (6576, 6601), (6608, 6618), (6656, 6678), (6688, 6740),
    (6784, 6793), (6800, 6809), (6823, 6823), (6917, 6963), (6981, 6988), (6992, 7001),
    (7043, 7072), (7086, 7141), (7168, 7203), (7232, 7241), (7245, 7293), (7296, 7304),
    (7312, 7354), (7357, 7359), (7401, 7404), (7406, 7411), (7413, 7414), (7418, 7418),
    (7424, 7615), (7680, 7957), (7960, 7965), (7968, 8005), (8008, 8013), (8016, 8023),
    (8025, 8025), (8027, 8027), (8029, 8029), (8031, 8061), (8064, 8116), (8118, 8124),
    (8126, 8126), (8130, 8132), (8134, 8140), (8144, 8147), (8150, 8155), (8160, 8172),
    (8178, 8180), (8182, 8188), (8304, 8305), (8308, 8313), (8319, 8329), (8336, 8348),
    (8450, 8450), (8455, 8455), (8458, 8467), (8469, 8469), (8473, 8477), (8484, 8484),
    (8486, 8486), (8488, 8488), (8490, 8493), (8495, 8505), (8508, 8511), (8517, 8521),
    (8526, 8526), (8528, 8585), (9312, 9371), (9450, 9471), (10102, 10131), (11264, 11492),
    (11499, 11502), (11506, 11507), (11517, 11517), (11520, 11557), (11559, 11559), (11565, 11565),
    (11568, 11623), (11631, 11631), (11648, 11670), (11680, 11686), (11688, 11694), (11696, 11702),
    (11704, 11710), (11712, 11718), (11720, 11726), (11728, 11734), (11736, 11742), (11823, 11823),
    (12293, 12295), (12321, 12329), (12337, 12341), (12344, 12348), (12353, 12438), (12445, 12447),
    (12449, 12538), (12540, 12543), (12549, 12591), (12593, 12686), (12690, 12693), (12704, 12735),
    (12784, 12799), (12832, 12841), (12872, 12879), (12881, 12895), (12928, 12937), (12977, 12991),
    (13312, 19903), (19968, 42124), (42192, 42237), (42240, 42508), (42512, 42539), (42560, 42606),
    (42623, 42653), (42656, 42735), (42775, 42783), (42786, 42888), (42891, 42954), (42960, 42961),
    (42963, 42963), (42965, 42969), (42994, 43009), (43011, 43013), (43015, 43018), (43020, 43042),
    (43056, 43061), (43072, 43123), (43138, 43187), (43216, 43225), (43250, 43255), (43259, 43259),
    (43261, 43262), (43264, 43301), (43312, 43334), (43360, 43388), (43396, 43442), (43471, 43481),
    (43488, 43492), (43494, 43518), (43520, 43560), (43584, 43586), (43588, 43595), (43600, 43609),
    (43616, 43638), (43642, 43642), (43646, 43695), (43697, 43697), (43701, 43702), (43705, 43709),
    (43712, 43712), (43714, 43714), (43739, 43741), (43744, 43754), (43762, 43764), (43777, 43782),
    (43785, 43790), (43793, 43798), (43808, 43814), (43816, 43822), (43824, 43866), (43868, 43881),
    (43888, 44002), (44016, 44025), (44032, 55203), (55216, 55238), (55243, 55291), (63744, 64109),
    (64112, 64217), (64256, 64262), (64275, 64279), (64285, 64285), (64287, 64296), (64298, 64310),
    (64312, 64316), (64318, 64318), (64320, 64321), (64323, 64324), (64326, 64433), (64467, 64829),
    (64848, 64911), (64914, 64967), (65008, 65019), (65136, 65140), (65142, 65276), (65296, 65305),
    (65313, 65338), (65345, 65370), (65382, 65470), (65474, 65479), (65482, 65487), (65490, 65495),
    (65498, 65500), (65536, 65547), (65549, 65574), (65576, 65594), (65596, 65597), (65599, 65613),
    (65616, 65629), (65664, 65786), (65799, 65843), (65856, 65912), (65930, 65931), (66176, 66204),
    (66208, 66256), (66273, 66299), (66304, 66339), (66349, 66378), (66384, 66421), (66432, 66461),
    (66464, 66499), (66504, 66511), (66513, 66517), (66560, 66717), (66720, 66729), (66736, 66771),
    (66776, 66811), (66816, 66855), (66864, 66915), (66928, 66938), (66940, 66954), (66956, 66962),
    (66964, 66965), (66967, 66977), (66979, 66993), (66995, 67001), (67003, 67004), (67072, 67382),
    (67392, 67413), (67424, 67431), (67456, 67461), (67463, 67504), (67506, 67514), (67584, 67589),
    (67592, 67592), (67594, 67637), (67639, 67640), (67644, 67644), (67647, 67669), (67672, 67702),
    (67705, 67742), (67751, 67759), (67808, 67826), (67828, 67829), (67835, 67867), (67872, 67897),
    (67968, 68023), (68028, 68047), (68050, 68096), (68112, 68115), (68117, 68119), (68121, 68149),
    (68160, 68168), (68192, 68222), (68224, 68255), (68288, 68295), (68297, 68324), (68331, 68335),
    (68352, 68405), (68416, 68437), (68440, 68466), (68472, 68497), (68521, 68527), (68608, 68680),
    (68736, 68786), (68800, 68850), (68858, 68899), (68912, 68921), (69216, 69246), (69248, 69289),
    (69296, 69297), (69376, 69415), (69424, 69445), (69457, 69460), (69488, 69505), (69552, 69579),
    (69600, 69622), (69635, 69687), (69714, 69743), (69745, 69746), (69749, 69749), (69763, 69807),
    (69840, 69864), (69872, 69881), (69891, 69926), (69942, 69951), (69956, 69956), (69959, 69959),
    (69968, 70002), (70006, 70006), (70019, 70066), (70081, 70084), (70096, 70106), (70108, 70108),
    (70113, 70132), (70144, 70161), (70163, 70187), (70272, 70278), (70280, 70280), (70282, 70285),
    (70287, 70301), (70303, 70312), (70320, 70366), (70384, 70393), (70405, 70412), (70415, 70416),
    (70419, 70440), (70442, 70448), (70450, 70451), (70453, 70457), (70461, 70461), (70480, 70480),
    (70493, 70497), (70656, 70708), (70727, 70730), (70736, 70745), (70751, 70753), (70784, 70831),
    (70852, 70853), (70855, 70855), (70864, 70873), (71040, 71086), (71128, 71131), (71168, 71215),
    (71236, 71236), (71248, 71257), (71296, 71338), (71352, 71352), (71360, 71369), (71424, 71450),
    (71472, 71483), (71488, 71494), (71680, 71723), (71840, 71922), (71935, 71942), (71945, 71945),
    (71948, 71955), (71957, 71958), (71960, 71983), (71999, 71999), (72001, 72001), (72016, 72025),
    (72096, 72103), (72106, 72144), (72161, 72161), (72163, 72163), (72192, 72192), (72203, 72242),
    (72250, 72250), (72272, 72272), (72284, 72329), (72349, 72349), (72368, 72440), (72704, 72712),
    (72714, 72750), (72768, 72768), (72784, 72812), (72818, 72847), (72960, 72966), (72968, 72969),
    (72971, 73008), (73030, 73030), (73040, 73049), (73056, 73061), (73063, 73064), (73066, 73097),
    (73112, 73112), (73120, 73129), (73440, 73458), (73648, 73648), (73664, 73684), (73728, 74649),
    (74752, 74862), (74880, 75075), (77712, 77808), (77824, 78894), (82944, 83526), (92160, 92728),
    (92736, 92766), (92768, 92777), (92784, 92862), (92864, 92873), (92880, 92909), (92928, 92975),
    (92992, 92995), (93008, 93017), (93019, 93025), (93027, 93047), (93053, 93071), (93760, 93846),
    (93952, 94026), (94032, 94032), (94099, 94111), (94176, 94177), (94179, 94179), (94208, 100343),
    (100352, 101589), (101632, 101640), (110576, 110579), (110581, 110587), (110589, 110590), (110592, 110882),
    (110928, 110930), (110948, 110951), (110960, 111355), (113664, 113770), (113776, 113788), (113792, 113800),
    (113808, 113817), (119520, 119539), (119648, 119672), (119808, 119892), (119894, 119964), (119966, 119967),
    (119970, 119970), (119973, 119974), (119977, 119980), (119982, 119993), (119995, 119995), (119997, 120003),
    (120005, 120069), (120071, 120074), (120077, 120084), (120086, 120092), (120094, 120121), (120123, 120126),
    (120128, 120132), (120134, 120134), (120138, 120144), (120146, 120485), (120488, 120512), (120514, 120538),
    (120540, 120570), (120572, 120596), (120598, 120628), (120630, 120654), (120656, 120686), (120688, 120712),
    (120714, 120744), (120746, 120770), (120772, 120779), (120782, 120831), (122624, 122654), (123136, 123180),
    (123191, 123197), (123200, 123209), (123214, 123214), (123536, 123565), (123584, 123627), (123632, 123641),
    (124896, 124902), (124904, 124907), (124909, 124910), (124912, 124926), (124928, 125124), (125127, 125135),
    (125184, 125251), (125259, 125259), (125264, 125273), (126065, 126123), (126125, 126127), (126129, 126132),
    (126209, 126253), (126255, 126269), (126464, 126467), (126469, 126495), (126497, 126498), (126500, 126500),
    (126503, 126503), (126505, 126514), (126516, 126519), (126521, 126521), (126523, 126523), (126530, 126530),
    (126535, 126535), (126537, 126537), (126539, 126539), (126541, 126543), (126545, 126546), (126548, 126548),
    (126551, 126551), (126553, 126553), (126555, 126555), (126557, 126557), (126559, 126559), (126561, 126562),
    (126564, 126564), (126567, 126570), (126572, 126578), (126580, 126583), (126585, 126588), (126590, 126590),
    (126592, 126601), (126603, 126619), (126625, 126627), (126629, 126633), (126635, 126651), (127232, 127244),
    (130032, 130041), (131072, 173791), (173824, 177976), (177984, 178205), (178208, 183969), (183984, 191456),
    (194560, 195101), (196608, 201546)]"

definition is_word :: "nat \<Rightarrow> bool" where
  "is_word c = in_ranges word_ranges c"

text \<open>The code points for which \<open>str.isspace\<close> holds.\<close>

definition space_ranges :: "(nat \<times> nat) list" where
  "space_ranges = [(9, 13), (28, 32), (133, 133), (160, 160), (5760, 5760), (8192, 8202),
    (8232, 8233), (8239, 8239), (8287, 8287), (12288, 12288)]"

definition is_space :: "nat \<Rightarrow> bool" where
  "is_space c = in_ranges space_ranges c"

text \<open>
  Matching of a pattern literal under \<open>re.IGNORECASE\<close>. The only cased characters in
  the patterns of this program are ASCII capital letters: each matches itself and its
  small letter; \<open>S\<close> also matches U+017F (long s), and \<open>I\<close> also matches U+0130 and
  U+0131 (dotted capital and dotless small i). Kana and kanji have no case.
\<close>

definition case_variants :: "nat \<Rightarrow> nat list" where
  "case_variants p =
     (if 0x41 \<le> p \<and> p \<le> 0x5A then
        [p, p + 32] @ (if p = 0x53 then [0x17F] else if p = 0x49 then [0x130, 0x131] else [])
      else [p])"

definition char_matches :: "bool \<Rightarrow> nat \<Rightarrow> nat \<Rightarrow> bool" where
  "char_matches ignorecase p c = (if ignorecase then c \<in> set (case_variants p) else c = p)"

fun lit_prefix :: "bool \<Rightarrow> ustring \<Rightarrow> ustring \<Rightarrow> bool" where
  "lit_prefix ic [] t = True"
| "lit_prefix ic (p # ps) [] = False"
| "lit_prefix ic (p # ps) (c # cs) = (char_matches ic p c \<and> lit_prefix ic ps cs)"

section \<open>The regular expressions of \<open>parse_input\<close>\<close>

text \<open>
  The patterns of the source use three constructs: a literal, \<open>\d*\<close> and a captured
  \<open>(\w+)\<close>; a component pattern is one group of alternatives. \<open>match_items\<close> is the
  backtracking matcher at one position: it returns the captured groups and the text
  that follows the match. Both repetitions are greedy: the longest run is tried first,
  then every shorter one.
\<close>

datatype item = Lit ustring | DigitStar | WordPlus

fun first_some :: "'a option list \<Rightarrow> 'a option" where
  "first_some [] = None"
| "first_some (None # xs) = first_some xs"
| "first_some (Some v # xs) = Some v"

definition run_length :: "(nat \<Rightarrow> bool) \<Rightarrow> ustring \<Rightarrow> nat" where
  "run_length P t = length (takeWhile P t)"

fun match_items :: "bool \<Rightarrow> item list \<Rightarrow> ustring \<Rightarrow> (ustring list \<times> ustring) option" where
  "match_items ic [] t = Some ([], t)"
| "match_items ic (Lit l # its) t =
     (if lit_prefix ic l t then match_items ic its (drop (length l) t) else None)"
| "match_items ic (DigitStar # its) t =
     first_some (map (\<lambda>k. match_items ic its (drop k t)) (rev [0..<Suc (run_length is_digit t)]))"
| "match_items ic (WordPlus # its) t =
     first_some (map (\<lambda>k. map_option (\<lambda>(caps, r). (take k t # caps, r))
                              (match_items ic its (drop k t)))
                     (rev [1..<Suc (run_length is_word t)]))"

text \<open>Alternatives are tried in the order they are written; the first that matches wins.\<close>

definition match_alts :: "bool \<Rightarrow> item list list \<Rightarrow> ustring \<Rightarrow> (ustring list \<times> ustring) option" where
  "match_alts ic alts t = first_some (map (\<lambda>a. match_items ic a t) alts)"

text \<open>
  \<open>re.findall\<close>: scan from left to right; at a match, record the matched text with
  its groups and go on after it; otherwise move one character on. (A match that
  consumes nothing is recorded and the scan moves one character on; no pattern of this
  program has such a match.)
\<close>

function findall :: "bool \<Rightarrow> item list list \<Rightarrow> ustring \<Rightarrow> (ustring \<times> ustring list) list" where
  "findall ic alts t =
     (case match_alts ic alts t of
        Some (caps, r) \<Rightarrow>
          if length r < length t
          then (take (length t - length r) t, caps) # findall ic alts r
          else ([], caps) # (case t of [] \<Rightarrow> [] | c # t' \<Rightarrow> findall ic alts t')
      | None \<Rightarrow> (case t of [] \<Rightarrow> [] | c # t' \<Rightarrow> findall ic alts t'))"
  by pat_completeness auto
termination
  by (relation "measure (\<lambda>(ic, alts, t). length t)") auto

section \<open>The generator and its circuit\<close>

text \<open>
  A component is the dictionary with the keys \<open>type\<close>, \<open>name\<close>, \<open>x\<close> and \<open>y\<close>; its
  type is one of the nine keys of \<open>patterns\<close>. A connection is the dictionary with the
  keys \<open>from\<close> and \<open>to\<close>. The generator is the object \<open>CircuitDiagramGenerator\<close>.
\<close>

datatype kind = Resistor | Capacitor | Inductor | Battery | Led | Switch | Ground
  | Voltage_source | Current_source

record component =
  comp_type :: kind
  comp_name :: ustring
  comp_x :: int
  comp_y :: int

record connection =
  conn_from :: ustring
  conn_to :: ustring

record generator =
  components :: "component list"
  connections :: "connection list"
  grid_size :: int
  svg_width :: int
  svg_height :: int

definition init :: generator where
  "init = \<lparr>components = [], connections = [], grid_size = 50, svg_width = 800, svg_height = 600\<rparr>"

text \<open>
  The dictionary \<open>patterns\<close>, in its insertion order. The Japanese literals, in the
  order of the source: teikou, rejisuta; kondensa, kyapashita; indakuta, koiru;
  denchi, batterii, dengen; hakkou daioodo; suicchi; gurando, aasu; den'atsugen;
  denryuugen.
\<close>

definition patterns :: "(kind \<times> item list list) list" where
  "patterns = [
    (Resistor, [[Lit [0x62B5, 0x6297]], [Lit [0x30EC, 0x30B8, 0x30B9, 0x30BF]],
                [Lit (u ''R''), DigitStar]]),
    (Capacitor, [[Lit [0x30B3, 0x30F3, 0x30C7, 0x30F3, 0x30B5]],
                 [Lit [0x30AD, 0x30E3, 0x30D1, 0x30B7, 0x30BF]],
                 [Lit (u ''C''), DigitStar]]),
    (Inductor, [[Lit [0x30A4, 0x30F3, 0x30C0, 0x30AF, 0x30BF]], [Lit [0x30B3, 0x30A4, 0x30EB]],
                [Lit (u ''L''), DigitStar]]),
    (Battery, [[Lit [0x96FB, 0x6C60]], [Lit [0x30D0, 0x30C3, 0x30C6, 0x30EA, 0x30FC]],
               [Lit [0x96FB, 0x6E90]]]),
    (Led, [[Lit (u ''LED'')], [Lit [0x767A, 0x5149, 0x30C0, 0x30A4, 0x30AA, 0x30FC, 0x30C9]]]),
    (Switch, [[Lit [0x30B9, 0x30A4, 0x30C3, 0x30C1]], [Lit (u ''SW'')]]),
    (Ground, [[Lit [0x30B0, 0x30E9, 0x30F3, 0x30C9]], [Lit (u ''GND'')],
              [Lit [0x30A2, 0x30FC, 0x30B9]]]),
    (Voltage_source, [[Lit [0x96FB, 0x5727, 0x6E90]], [Lit (u ''V''), DigitStar]]),
    (Current_source, [[Lit [0x96FB, 0x6D41, 0x6E90]], [Lit (u ''I''), DigitStar]])]"

text \<open>
  The list \<open>connection_patterns\<close>: A to B wo setsuzoku; A kara B e; A, arrow U+2192, B;
  A, hyphen, B; A ni B wo tsunagu.
\<close>

definition connection_patterns :: "item list list" where
  "connection_patterns = [
    [WordPlus, Lit [0x3068], WordPlus, Lit [0x3092, 0x63A5, 0x7D9A]],
    [WordPlus, Lit [0x304B, 0x3089], WordPlus, Lit [0x3078]],
    [WordPlus, Lit [0x2192], WordPlus],
    [WordPlus, Lit (u ''-''), WordPlus],
    [WordPlus, Lit [0x306B], WordPlus, Lit [0x3092, 0x7E4B, 0x3050]]]"

text \<open>The default circuit of \<open>parse_input\<close>: denchi, teikou, LED.\<close>

definition default_circuit :: "component list" where
  "default_circuit = [
     \<lparr>comp_type = Battery, comp_name = [0x96FB, 0x6C60], comp_x = 100, comp_y = 200\<rparr>,
     \<lparr>comp_type = Resistor, comp_name = [0x62B5, 0x6297], comp_x = 300, comp_y = 200\<rparr>,
     \<lparr>comp_type = Led, comp_name = u ''LED'', comp_x = 500, comp_y = 200\<rparr>]"

text \<open>
  \<open>_calculate_positions\<close>: the loop over \<open>enumerate(self.components)\<close> writes the
  coordinates of the component at index \<open>i\<close>.
\<close>

definition calculate_positions :: "generator \<Rightarrow> generator" where
  "calculate_positions self =
     (if components self = [] then self
      else
        let spacing = svg_width self div (int (length (components self)) + 1)
        in self\<lparr>components :=
             map (\<lambda>(i, c). c\<lparr>comp_x := spacing * (int i + 1), comp_y := svg_height self div 2\<rparr>)
                 (enumerate 0 (components self))\<rparr>)"

text \<open>
  The first loop of \<open>parse_input\<close>: one component for every match of every pattern, in
  the order of the dictionary and then of the text. Every pattern has one group around
  all of it, so \<open>findall\<close> gives the matched text.
\<close>

definition detect_components :: "ustring \<Rightarrow> component list" where
  "detect_components txt =
     concat (map (\<lambda>(component_type, pattern).
                    map (\<lambda>(m, caps). \<lparr>comp_type = component_type, comp_name = m, comp_x = 0, comp_y = 0\<rparr>)
                        (findall True pattern txt))
                 patterns)"

text \<open>
  The second loop of \<open>parse_input\<close>: one connection for every match of every connection
  pattern (matched without \<open>re.IGNORECASE\<close>); the two groups are \<open>from\<close> and \<open>to\<close>.
  Every connection pattern has two groups; the last case cannot arise.
\<close>

fun connection_of :: "ustring \<times> ustring list \<Rightarrow> connection list" where
  "connection_of (m, a # b # caps) = [\<lparr>conn_from = a, conn_to = b\<rparr>]"
| "connection_of (m, caps) = []"

definition detect_connections :: "ustring \<Rightarrow> connection list" where
  "detect_connections txt =
     concat (map (\<lambda>pattern. concat (map connection_of (findall False [pattern] txt)))
                 connection_patterns)"

definition parse_input :: "generator \<Rightarrow> ustring \<Rightarrow> generator" where
  "parse_input self txt =
     (let found = detect_components txt;
          comps = (if found = [] then default_circuit else found)
      in calculate_positions
           (self\<lparr>components := comps, connections := detect_connections txt\<rparr>))"

section \<open>The element tree\<close>

text \<open>
  An element of \<open>xml.etree.ElementTree\<close>: tag, attributes in insertion order, text and
  children. \<open>SubElement\<close> appends a new child; \<open>SubElement_text\<close> is
  \<open>SubElement(...).text = t\<close>.
\<close>

datatype element = Element (el_tag: string) (el_attrib: "(string \<times> ustring) list")
  (el_text: "ustring option") (el_children: "element list")

definition SubElement :: "element \<Rightarrow> string \<Rightarrow> (string \<times> ustring) list \<Rightarrow> element" where
  "SubElement parent tg at =
     Element (el_tag parent) (el_attrib parent) (el_text parent)
       (el_children parent @ [Element tg at None []])"

definition SubElement_text :: "element \<Rightarrow> string \<Rightarrow> (string \<times> ustring) list \<Rightarrow> ustring \<Rightarrow> element" where
  "SubElement_text parent tg at t =
     Element (el_tag parent) (el_attrib parent) (el_text parent)
       (el_children parent @ [Element tg at (Some t) []])"

text \<open>\<open>str\<close> on an integer: decimal digits, with a minus sign below zero.\<close>

function str_nat :: "nat \<Rightarrow> ustring" where
  "str_nat n = (if n < 10 then [48 + n] else str_nat (n div 10) @ [48 + n mod 10])"
  by pat_completeness auto
termination
  by (relation "measure id") auto

definition str_int :: "int \<Rightarrow> ustring" where
  "str_int i = (if i < 0 then 45 # str_nat (nat (- i)) else str_nat (nat i))"

fun join :: "ustring \<Rightarrow> ustring list \<Rightarrow> ustring" where
  "join sep [] = []"
| "join sep [s] = s"
| "join sep (s # ss) = s @ sep @ join sep ss"

text \<open>
  The attribute dictionaries of the source have two shapes, written once here: the one
  of every \<open>line\<close> (with its stroke width) and the one of every \<open>text\<close> (with its
  font size and fill).
\<close>

definition line_attrs :: "int \<Rightarrow> int \<Rightarrow> int \<Rightarrow> int \<Rightarrow> string \<Rightarrow> (string \<times> ustring) list" where
  "line_attrs x1 y1 x2 y2 w =
     [(''x1'', str_int x1), (''y1'', str_int y1), (''x2'', str_int x2), (''y2'', str_int y2),
      (''stroke'', u ''black''), (''stroke-width'', u w)]"

definition text_attrs :: "int \<Rightarrow> int \<Rightarrow> string \<Rightarrow> string \<Rightarrow> (string \<times> ustring) list" where
  "text_attrs x y font_size fill =
     [(''x'', str_int x), (''y'', str_int y), (''text-anchor'', u ''middle''),
      (''font-family'', u ''Arial''), (''font-size'', u font_size), (''fill'', u fill)]"

section \<open>Wiring\<close>

definition draw_connections :: "generator \<Rightarrow> element \<Rightarrow> element" where
  "draw_connections self svg =
     (if length (components self) < 2 then svg
      else
        let svg1 = foldl (\<lambda>s i.
                      let comp1 = components self ! i; comp2 = components self ! (i + 1)
                      in SubElement s ''line''
                           (line_attrs (comp_x comp1 + 40) (comp_y comp1)
                                       (comp_x comp2 - 40) (comp_y comp2) ''2''))
                    svg [0..<length (components self) - 1]
        in if length (components self) > 2 then
             let first = components self ! 0; lst = last (components self);
                 svg2 = SubElement svg1 ''line''
                          (line_attrs (comp_x lst) (comp_y lst + 20) (comp_x lst) (comp_y lst + 80) ''2'');
                 svg3 = SubElement svg2 ''line''
                          (line_attrs (comp_x lst) (comp_y lst + 80) (comp_x first) (comp_y first + 80) ''2'')
             in SubElement svg3 ''line''
                  (line_attrs (comp_x first) (comp_y first + 80) (comp_x first) (comp_y first + 20) ''2'')
           else svg1)"

section \<open>Icons\<close>

definition draw_resistor :: "element \<Rightarrow> int \<Rightarrow> int \<Rightarrow> ustring \<Rightarrow> element" where
  "draw_resistor svg x y nm =
     (let points = map (\<lambda>i. str_int (x - 30 + int i * 10) @ u '','' @
                             str_int (y + (if i mod 2 = 1 then 10 else - 10))) [0..<7];
          svg1 = SubElement svg ''polyline''
                   [(''points'', join (u '' '') points), (''fill'', u ''none''),
                    (''stroke'', u ''black''), (''stroke-width'', u ''2'')];
          svg2 = SubElement svg1 ''line'' (line_attrs (x - 40) y (x - 30) y ''2'');
          svg3 = SubElement svg2 ''line'' (line_attrs (x + 30) y (x + 40) y ''2'')
      in SubElement_text svg3 ''text'' (text_attrs x (y - 20) ''12'' ''black'') nm)"

definition draw_capacitor :: "element \<Rightarrow> int \<Rightarrow> int \<Rightarrow> ustring \<Rightarrow> element" where
  "draw_capacitor svg x y nm =
     (let svg1 = SubElement svg ''line'' (line_attrs (x - 5) (y - 20) (x - 5) (y + 20) ''3'');
          svg2 = SubElement svg1 ''line'' (line_attrs (x + 5) (y - 20) (x + 5) (y + 20) ''3'');
          svg3 = SubElement svg2 ''line'' (line_attrs (x - 40) y (x - 5) y ''2'');
          svg4 = SubElement svg3 ''line'' (line_attrs (x + 5) y (x + 40) y ''2'')
      in SubElement_text svg4 ''text'' (text_attrs x (y - 30) ''12'' ''black'') nm)"

definition draw_inductor :: "element \<Rightarrow> int \<Rightarrow> int \<Rightarrow> ustring \<Rightarrow> element" where
  "draw_inductor svg x y nm =
     (let svg1 = foldl (\<lambda>s i.
                      let cx = x - 15 + int i * 10
                      in SubElement s ''path''
                           [(''d'', u ''M '' @ str_int cx @ u '' '' @ str_int y @ u '' A 5 5 0 0 1 '' @
                                    str_int (cx + 10) @ u '' '' @ str_int y),
                            (''fill'', u ''none''), (''stroke'', u ''black''),
                            (''stroke-width'', u ''2'')])
                    svg [0..<4];
          svg2 = SubElement svg1 ''line'' (line_attrs (x - 40) y (x - 15) y ''2'');
          svg3 = SubElement svg2 ''line'' (line_attrs (x + 15) y (x + 40) y ''2'')
      in SubElement_text svg3 ''text'' (text_attrs x (y - 20) ''12'' ''black'') nm)"

definition draw_battery :: "element \<Rightarrow> int \<Rightarrow> int \<Rightarrow> ustring \<Rightarrow> element" where
  "draw_battery svg x y nm =
     (let svg1 = SubElement svg ''line'' (line_attrs (x + 5) (y - 20) (x + 5) (y + 20) ''3'');
          svg2 = SubElement svg1 ''line'' (line_attrs (x - 5) (y - 10) (x - 5) (y + 10) ''3'');
          svg3 = SubElement svg2 ''line'' (line_attrs (x - 40) y (x - 5) y ''2'');
          svg4 = SubElement svg3 ''line'' (line_attrs (x + 5) y (x + 40) y ''2'');
          svg5 = SubElement_text svg4 ''text'' (text_attrs (x + 15) (y + 5) ''14'' ''red'') (u ''+'');
          svg6 = SubElement_text svg5 ''text'' (text_attrs (x - 15) (y + 5) ''14'' ''blue'') (u ''-'')
      in SubElement_text svg6 ''text'' (text_attrs x (y - 30) ''12'' ''black'') nm)"

definition draw_led :: "element \<Rightarrow> int \<Rightarrow> int \<Rightarrow> ustring \<Rightarrow> element" where
  "draw_led svg x y nm =
     (let svg1 = SubElement svg ''polygon''
                   [(''points'', str_int (x - 15) @ u '','' @ str_int (y - 10) @ u '' '' @
                                 str_int (x - 15) @ u '','' @ str_int (y + 10) @ u '' '' @
                                 str_int (x + 5) @ u '','' @ str_int y),
                    (''fill'', u ''none''), (''stroke'', u ''black''), (''stroke-width'', u ''2'')];
          svg2 = SubElement svg1 ''line'' (line_attrs (x + 5) (y - 10) (x + 5) (y + 10) ''2'');
          svg3 = SubElement svg2 ''line'' (line_attrs (x - 40) y (x - 15) y ''2'');
          svg4 = SubElement svg3 ''line'' (line_attrs (x + 5) y (x + 40) y ''2'');
          svg5 = SubElement svg4 ''path''
                   [(''d'', u ''M '' @ str_int (x + 10) @ u '' '' @ str_int (y - 15) @
                            u '' L '' @ str_int (x + 15) @ u '' '' @ str_int (y - 20) @
                            u '' M '' @ str_int (x + 12) @ u '' '' @ str_int (y - 20) @
                            u '' L '' @ str_int (x + 15) @ u '' '' @ str_int (y - 20) @
                            u '' L '' @ str_int (x + 15) @ u '' '' @ str_int (y - 17)),
                    (''fill'', u ''none''), (''stroke'', u ''orange''), (''stroke-width'', u ''1'')]
      in SubElement_text svg5 ''text'' (text_attrs x (y - 30) ''12'' ''black'') nm)"

definition draw_switch :: "element \<Rightarrow> int \<Rightarrow> int \<Rightarrow> ustring \<Rightarrow> element" where
  "draw_switch svg x y nm =
     (let svg1 = SubElement svg ''circle''
                   [(''cx'', str_int (x - 15)), (''cy'', str_int y), (''r'', u ''2''),
                    (''fill'', u ''black'')];
          svg2 = SubElement svg1 ''circle''
                   [(''cx'', str_int (x + 15)), (''cy'', str_int y), (''r'', u ''2''),
                    (''fill'', u ''black'')];
          svg3 = SubElement svg2 ''line'' (line_attrs (x - 15) y (x + 10) (y - 10) ''2'');
          svg4 = SubElement svg3 ''line'' (line_attrs (x - 40) y (x - 15) y ''2'');
          svg5 = SubElement svg4 ''line'' (line_attrs (x + 15) y (x + 40) y ''2'')
      in SubElement_text svg5 ''text'' (text_attrs x (y - 25) ''12'' ''black'') nm)"

definition draw_ground :: "element \<Rightarrow> int \<Rightarrow> int \<Rightarrow> ustring \<Rightarrow> element" where
  "draw_ground svg x y nm =
     (let svg1 = SubElement svg ''line'' (line_attrs x y x (y + 20) ''2'');
          svg2 = foldl (\<lambda>s (i, len).
                      SubElement s ''line''
                        (line_attrs (x - len div 2) (y + 20 + int i * 4)
                                    (x + len div 2) (y + 20 + int i * 4) ''2''))
                    svg1 (enumerate 0 [20, 12, 6]);
          svg3 = SubElement svg2 ''line'' (line_attrs (x - 40) y x y ''2'')
      in SubElement_text svg3 ''text'' (text_attrs x (y - 10) ''12'' ''black'') nm)"

definition draw_generic :: "element \<Rightarrow> int \<Rightarrow> int \<Rightarrow> ustring \<Rightarrow> element" where
  "draw_generic svg x y nm =
     (let svg1 = SubElement svg ''rect''
                   [(''x'', str_int (x - 20)), (''y'', str_int (y - 15)), (''width'', u ''40''),
                    (''height'', u ''30''), (''fill'', u ''lightgray''), (''stroke'', u ''black''),
                    (''stroke-width'', u ''2'')];
          svg2 = SubElement svg1 ''line'' (line_attrs (x - 40) y (x - 20) y ''2'');
          svg3 = SubElement svg2 ''line'' (line_attrs (x + 20) y (x + 40) y ''2'')
      in SubElement_text svg3 ''text'' (text_attrs x (y + 5) ''10'' ''black'') nm)"

text \<open>\<open>_draw_component\<close>: the chain of comparisons on the type, with its \<open>else\<close>.\<close>

definition draw_component :: "element \<Rightarrow> component \<Rightarrow> element" where
  "draw_component svg component =
     (let x = comp_x component; y = comp_y component; comp_type = comp_type component
      in if comp_type = Resistor then draw_resistor svg x y (comp_name component)
         else if comp_type = Capacitor then draw_capacitor svg x y (comp_name component)
         else if comp_type = Inductor then draw_inductor svg x y (comp_name component)
         else if comp_type = Battery then draw_battery svg x y (comp_name component)
         else if comp_type = Led then draw_led svg x y (comp_name component)
         else if comp_type = Switch then draw_switch svg x y (comp_name component)
         else if comp_type = Ground then draw_ground svg x y (comp_name component)
         else draw_generic svg x y (comp_name component))"

section \<open>Serialisation\<close>

text \<open>
  \<open>_prettify_svg\<close> writes the tree with \<open>ElementTree.tostring\<close>, parses the result with
  \<open>minidom.parseString\<close> and writes it again with \<open>toprettyxml(indent="  ")\<close>. Parsing
  fails on a string that cannot be encoded (a surrogate) and on a character that XML
  1.0 does not allow; these are the only failures of the function, since
  \<open>tostring\<close> escapes markup characters and the tags and attribute names of this
  program are constants that are XML names.
\<close>

datatype error = UnicodeEncodeError | ExpatError

definition is_surrogate :: "nat \<Rightarrow> bool" where
  "is_surrogate c = (0xD800 \<le> c \<and> c \<le> 0xDFFF)"

definition xml_char :: "nat \<Rightarrow> bool" where
  "xml_char c = (c = 9 \<or> c = 10 \<or> c = 13 \<or> (0x20 \<le> c \<and> c \<le> 0xD7FF) \<or>
                 (0xE000 \<le> c \<and> c \<le> 0xFFFD) \<or> (0x10000 \<le> c \<and> c \<le> 0x10FFFF))"

fun element_strings :: "element \<Rightarrow> ustring list" where
  "element_strings (Element t a x cs) =
     map snd a @ (case x of None \<Rightarrow> [] | Some s \<Rightarrow> [s]) @ concat (map element_strings cs)"

text \<open>The parser turns a carriage return of a text, with a line feed after it or not, into a line feed.\<close>

fun normalize_newlines :: "ustring \<Rightarrow> ustring" where
  "normalize_newlines [] = []"
| "normalize_newlines [c] = [if c = 13 then 10 else c]"
| "normalize_newlines (c # d # cs) =
     (if c = 13 \<and> d = 10 then 10 # normalize_newlines cs
      else if c = 13 then 10 # normalize_newlines (d # cs)
      else c # normalize_newlines (d # cs))"

text \<open>The writer of \<open>minidom\<close> escapes the ampersand, the angle brackets and the double quote.\<close>

fun escape :: "ustring \<Rightarrow> ustring" where
  "escape [] = []"
| "escape (c # cs) =
     (if c = 38 then u ''&amp;'' else if c = 60 then u ''&lt;''
      else if c = 34 then u ''&quot;'' else if c = 62 then u ''&gt;'' else [c]) @ escape cs"

text \<open>The parser puts the namespace declaration before the other attributes.\<close>

definition write_attrs :: "(string \<times> ustring) list \<Rightarrow> ustring" where
  "write_attrs at =
     concat (map (\<lambda>(k, v). u '' '' @ u k @ u ''='' @ [34] @ escape v @ [34])
                 (filter (\<lambda>(k, v). k = ''xmlns'') at @ filter (\<lambda>(k, v). k \<noteq> ''xmlns'') at))"

text \<open>
  \<open>Element.writexml\<close>: an element without content closes itself; an element whose only
  content is text is written on one line; otherwise every child is written on a line of
  its own, two spaces deeper.
\<close>

fun writexml :: "ustring \<Rightarrow> element \<Rightarrow> ustring" where
  "writexml indent (Element t a x cs) =
     (let txt = (case x of None \<Rightarrow> [] | Some s \<Rightarrow> normalize_newlines s)
      in indent @ u ''<'' @ u t @ write_attrs a @
         (if txt = [] \<and> cs = [] then u ''/>'' @ [10]
          else if cs = [] then u ''>'' @ escape txt @ u ''</'' @ u t @ u ''>'' @ [10]
          else u ''>'' @ [10] @
               (if txt = [] then [] else indent @ u ''  '' @ escape txt @ [10]) @
               concat (map (writexml (indent @ u ''  '')) cs) @
               indent @ u ''</'' @ u t @ u ''>'' @ [10]))"

definition prettify_svg :: "element \<Rightarrow> error + ustring" where
  "prettify_svg elem =
     (if list_ex (list_ex is_surrogate) (element_strings elem) then Inl UnicodeEncodeError
      else if list_ex (list_ex (\<lambda>c. \<not> xml_char c)) (element_strings elem) then Inl ExpatError
      else Inr (u ''<?xml version='' @ [34] @ u ''1.0'' @ [34] @ u '' ?>'' @ [10] @ writexml [] elem))"

section \<open>Rendering\<close>

text \<open>
  The tree that \<open>generate_svg\<close> builds: the root, the background, the wiring and the
  icon of every component, in this order.
\<close>

definition svg_tree :: "generator \<Rightarrow> element" where
  "svg_tree self =
     (let svg = Element ''svg''
                  [(''width'', str_int (svg_width self)), (''height'', str_int (svg_height self)),
                   (''xmlns'', u ''http://www.w3.org/2000/svg'')] None [];
          svg1 = SubElement svg ''rect''
                   [(''width'', str_int (svg_width self)), (''height'', str_int (svg_height self)),
                    (''fill'', u ''white''), (''stroke'', u ''none'')];
          svg2 = draw_connections self svg1
      in foldl draw_component svg2 (components self))"

text \<open>
  \<open>generate_svg\<close> returns the serialised document, or the error that the parser raises;
  it reads the generator and leaves it as it is.
\<close>

definition generate_svg :: "generator \<Rightarrow> (error + ustring) \<times> generator" where
  "generate_svg self = (prettify_svg (svg_tree self), self)"


section \<open>What the document is made of\<close>

text \<open>
  The elements that a drawing routine appends are read off an element without children:
  \<open>wiring\<close> is what \<open>_draw_connections\<close> emits for a generator, \<open>icon\<close> is what
  \<open>_draw_component\<close> emits for a component, \<open>background\<close> is the rectangle of
  \<open>generate_svg\<close>.
\<close>

definition blank :: element where
  "blank = Element ''svg'' [] None []"

definition wiring :: "generator \<Rightarrow> element list" where
  "wiring self = el_children (draw_connections self blank)"

definition icon :: "component \<Rightarrow> element list" where
  "icon c = el_children (draw_component blank c)"

definition background :: "generator \<Rightarrow> element" where
  "background self =
     Element ''rect''
       [(''width'', str_int (svg_width self)), (''height'', str_int (svg_height self)),
        (''fill'', u ''white''), (''stroke'', u ''none'')] None []"

text \<open>
  The wiring as the specification words it: the connecting line of two neighbours runs
  between their facing edges, 40 from each centre; the return path goes from the last
  component down from 20 to 80 below its centre, across to the first, and up again.
\<close>

definition adjacent_line :: "component \<Rightarrow> component \<Rightarrow> element" where
  "adjacent_line c1 c2 =
     Element ''line''
       (line_attrs (comp_x c1 + 40) (comp_y c1) (comp_x c2 - 40) (comp_y c2) ''2'') None []"

definition return_path :: "component \<Rightarrow> component \<Rightarrow> element list" where
  "return_path first lst =
     [Element ''line''
        (line_attrs (comp_x lst) (comp_y lst + 20) (comp_x lst) (comp_y lst + 80) ''2'') None [],
      Element ''line''
        (line_attrs (comp_x lst) (comp_y lst + 80) (comp_x first) (comp_y first + 80) ''2'') None [],
      Element ''line''
        (line_attrs (comp_x first) (comp_y first + 80) (comp_x first) (comp_y first + 20) ''2'') None []]"

text \<open>
  The leads of an icon as the specification words them: a lead is a horizontal line on
  the centreline of the component with an end at the connection point. \<open>lead_lines c ex\<close>
  are the leads of the icon of \<open>c\<close> that end at the abscissa \<open>ex\<close>.
\<close>

definition attr :: "element \<Rightarrow> string \<Rightarrow> ustring option" where
  "attr e k = map_of (el_attrib e) k"

definition is_lead :: "int \<Rightarrow> int \<Rightarrow> element \<Rightarrow> bool" where
  "is_lead ex y e =
     (el_tag e = ''line'' \<and> attr e ''y1'' = Some (str_int y) \<and> attr e ''y2'' = Some (str_int y) \<and>
      (attr e ''x1'' = Some (str_int ex) \<or> attr e ''x2'' = Some (str_int ex)))"

definition lead_lines :: "component \<Rightarrow> int \<Rightarrow> element list" where
  "lead_lines c ex = filter (is_lead ex (comp_y c)) (icon c)"

section \<open>Notions about matching\<close>

text \<open>
  \<open>no_vocabulary\<close>: the pattern of none of the nine kinds matches anywhere in the text.
\<close>

definition no_vocabulary :: "ustring \<Rightarrow> bool" where
  "no_vocabulary txt = list_all (\<lambda>(k, alts). findall True alts txt = []) patterns"

text \<open>
  An alternative that starts with a literal can match only where the text has one of
  the characters that its first character matches.
\<close>

fun starts_with_lit :: "item list \<Rightarrow> bool" where
  "starts_with_lit (Lit (p # ps) # its) = True"
| "starts_with_lit its = False"

fun alt_starts :: "bool \<Rightarrow> item list \<Rightarrow> nat list" where
  "alt_starts ic (Lit (p # ps) # its) = (if ic then case_variants p else [p])"
| "alt_starts ic its = []"



section \<open>Notions about serialisation\<close>

text \<open>
  \<open>valid_el\<close>: every attribute value and every text of the tree consists of characters
  that XML allows, which is when \<open>prettify_svg\<close> succeeds. \<open>item_chars_ok\<close>: whatever
  the item of a pattern matches under \<open>re.IGNORECASE\<close> consists of such characters
  (a literal through the characters its own characters match, \<open>\d*\<close> through the
  digits); it is not claimed of \<open>\w+\<close>.
\<close>

definition valid_el :: "element \<Rightarrow> bool" where
  "valid_el e = list_all (list_all xml_char) (element_strings e)"


section \<open>Layout\<close>

lemma components_calculate_positions:
  "components (calculate_positions self) =
     map (\<lambda>(i, c). c\<lparr>comp_x := (svg_width self div (int (length (components self)) + 1)) * (int i + 1),
                       comp_y := svg_height self div 2\<rparr>)
         (enumerate 0 (components self))"
  by (simp add: calculate_positions_def Let_def)

lemma calculate_positions_fields:
  "svg_width (calculate_positions self) = svg_width self"
  "svg_height (calculate_positions self) = svg_height self"
  "connections (calculate_positions self) = connections self"
  "grid_size (calculate_positions self) = grid_size self"
  "length (components (calculate_positions self)) = length (components self)"
  by (simp_all add: calculate_positions_def Let_def)

lemma nth_calculate_positions:
  assumes "i < length (components self)"
  shows "components (calculate_positions self) ! i =
           (components self ! i)\<lparr>comp_x := (svg_width self div (int (length (components self)) + 1)) * (int i + 1),
                                   comp_y := svg_height self div 2\<rparr>"
  using assms by (simp add: components_calculate_positions nth_enumerate_eq)

lemma calculate_positions_idem:
  "calculate_positions (calculate_positions self) = calculate_positions self"
proof -
  let ?s = "calculate_positions self"
  have "components (calculate_positions ?s) = components ?s"
    by (rule nth_equalityI)
       (simp_all add: calculate_positions_fields nth_calculate_positions)
  moreover have "svg_width (calculate_positions ?s) = svg_width ?s"
    "svg_height (calculate_positions ?s) = svg_height ?s"
    "connections (calculate_positions ?s) = connections ?s"
    "grid_size (calculate_positions ?s) = grid_size ?s"
    by (simp_all add: calculate_positions_fields)
  moreover have "generator.more (calculate_positions ?s) = generator.more ?s"
    by (simp add: calculate_positions_def Let_def)
  ultimately show ?thesis
    by (intro generator.equality) simp_all
qed

text \<open>
  C2. For a list of \<open>N \<ge> 1\<close> components on the canvas of 800 by 600, layout gives the
  \<open>i\<close>-th component (counted from 1) the coordinates \<open>x = (800 div (N + 1)) * i\<close> and
  \<open>y = 300\<close>; it keeps the number, the order, the types and the names of the components,
  and running it again on its result changes nothing.
\<close>

theorem layout_positions:
  assumes "1 \<le> length (components self)"
    and "svg_width self = 800" and "svg_height self = 600"
  shows "length (components (calculate_positions self)) = length (components self) \<and>
         (\<forall>i. 1 \<le> i \<and> i \<le> length (components self) \<longrightarrow>
            comp_x (components (calculate_positions self) ! (i - 1)) =
              (800 div (int (length (components self)) + 1)) * int i \<and>
            comp_y (components (calculate_positions self) ! (i - 1)) = 300 \<and>
            comp_type (components (calculate_positions self) ! (i - 1)) =
              comp_type (components self ! (i - 1)) \<and>
            comp_name (components (calculate_positions self) ! (i - 1)) =
              comp_name (components self ! (i - 1))) \<and>
         calculate_positions (calculate_positions self) = calculate_positions self"
proof (intro conjI allI impI)
  show "length (components (calculate_positions self)) = length (components self)"
    by (simp add: calculate_positions_fields)
next
  show "calculate_positions (calculate_positions self) = calculate_positions self"
    by (rule calculate_positions_idem)
next
  fix i assume i: "1 \<le> i \<and> i \<le> length (components self)"
  then have lt: "i - 1 < length (components self)" by arith
  have eq: "int (i - 1) + 1 = int i" using i by simp
  note nth = nth_calculate_positions [OF lt, unfolded eq]
  show "comp_x (components (calculate_positions self) ! (i - 1)) =
          (800 div (int (length (components self)) + 1)) * int i"
    unfolding nth by (simp add: assms)
  show "comp_y (components (calculate_positions self) ! (i - 1)) = 300"
    unfolding nth by (simp add: assms)
  show "comp_type (components (calculate_positions self) ! (i - 1)) =
          comp_type (components self ! (i - 1))"
    unfolding nth by simp
  show "comp_name (components (calculate_positions self) ! (i - 1)) =
          comp_name (components self ! (i - 1))"
    unfolding nth by simp
qed

text \<open>The default circuit: its second component is the resistor, placed at (400, 300).\<close>

theorem layout_positions_witness:
  "comp_x (components (calculate_positions (init\<lparr>components := default_circuit\<rparr>)) ! 1) = 400 \<and>
   comp_y (components (calculate_positions (init\<lparr>components := default_circuit\<rparr>)) ! 1) = 300 \<and>
   comp_type (components (calculate_positions (init\<lparr>components := default_circuit\<rparr>)) ! 1) = Resistor \<and>
   length (components (calculate_positions (init\<lparr>components := default_circuit\<rparr>))) = 3"
proof -
  let ?g = "init\<lparr>components := default_circuit\<rparr>"
  have h: "1 \<le> length (components ?g)" "svg_width ?g = 800" "svg_height ?g = 600"
    by (simp_all add: init_def default_circuit_def)
  have n: "length (components ?g) = 3" "components ?g ! 1 = default_circuit ! 1"
    by (simp_all add: default_circuit_def)
  from layout_positions [OF h] have
    "length (components (calculate_positions ?g)) = length (components ?g)"
    and "\<forall>i. 1 \<le> i \<and> i \<le> length (components ?g) \<longrightarrow>
            comp_x (components (calculate_positions ?g) ! (i - 1)) =
              (800 div (int (length (components ?g)) + 1)) * int i \<and>
            comp_y (components (calculate_positions ?g) ! (i - 1)) = 300 \<and>
            comp_type (components (calculate_positions ?g) ! (i - 1)) =
              comp_type (components ?g ! (i - 1)) \<and>
            comp_name (components (calculate_positions ?g) ! (i - 1)) =
              comp_name (components ?g ! (i - 1))"
    by blast+
  from this(1) this(2) [rule_format, of 2] show ?thesis
    by (simp add: n default_circuit_def)
qed

section \<open>The structure of the document\<close>

lemma children_SubElement [simp]:
  "el_children (SubElement s tg at) = el_children s @ [Element tg at None []]"
  by (simp add: SubElement_def)

lemma children_SubElement_text [simp]:
  "el_children (SubElement_text s tg at t) = el_children s @ [Element tg at (Some t) []]"
  by (simp add: SubElement_text_def)

lemma children_foldl_SubElement:
  "el_children (foldl (\<lambda>s i. SubElement s tg (f i)) svg js) =
     el_children svg @ map (\<lambda>i. Element tg (f i) None []) js"
  by (induction js arbitrary: svg) simp_all

lemma children_draw_connections:
  "el_children (draw_connections self svg) =
     el_children svg @
     (if length (components self) < 2 then []
      else map (\<lambda>i. adjacent_line (components self ! i) (components self ! (i + 1)))
               [0..<length (components self) - 1] @
           (if length (components self) > 2
            then return_path (components self ! 0) (last (components self)) else []))"
  by (simp add: draw_connections_def Let_def children_foldl_SubElement adjacent_line_def
      return_path_def)

lemma wiring_eq:
  "wiring self =
     (if length (components self) < 2 then []
      else map (\<lambda>i. adjacent_line (components self ! i) (components self ! (i + 1)))
               [0..<length (components self) - 1] @
           (if length (components self) > 2
            then return_path (components self ! 0) (last (components self)) else []))"
  by (simp add: wiring_def children_draw_connections blank_def)

lemma children_draw_connections_wiring:
  "el_children (draw_connections self svg) = el_children svg @ wiring self"
  by (simp only: children_draw_connections wiring_eq)

lemma children_draw_resistor:
  "el_children (draw_resistor svg x y nm) = el_children svg @ el_children (draw_resistor blank x y nm)"
  by (simp add: draw_resistor_def Let_def blank_def)

lemma children_draw_capacitor:
  "el_children (draw_capacitor svg x y nm) = el_children svg @ el_children (draw_capacitor blank x y nm)"
  by (simp add: draw_capacitor_def Let_def blank_def)

lemma children_draw_inductor:
  "el_children (draw_inductor svg x y nm) = el_children svg @ el_children (draw_inductor blank x y nm)"
  by (simp add: draw_inductor_def Let_def blank_def children_foldl_SubElement)

lemma children_draw_battery:
  "el_children (draw_battery svg x y nm) = el_children svg @ el_children (draw_battery blank x y nm)"
  by (simp add: draw_battery_def Let_def blank_def)

lemma children_draw_led:
  "el_children (draw_led svg x y nm) = el_children svg @ el_children (draw_led blank x y nm)"
  by (simp add: draw_led_def Let_def blank_def)

lemma children_draw_switch:
  "el_children (draw_switch svg x y nm) = el_children svg @ el_children (draw_switch blank x y nm)"
  by (simp add: draw_switch_def Let_def blank_def)

lemma children_draw_ground:
  "el_children (draw_ground svg x y nm) = el_children svg @ el_children (draw_ground blank x y nm)"
  by (simp add: draw_ground_def Let_def blank_def)

lemma children_draw_generic:
  "el_children (draw_generic svg x y nm) = el_children svg @ el_children (draw_generic blank x y nm)"
  by (simp add: draw_generic_def Let_def blank_def)

lemma children_draw_component:
  "el_children (draw_component svg c) = el_children svg @ icon c"
  by (cases "comp_type c")
     (simp_all add: icon_def draw_component_def Let_def
        children_draw_resistor [of svg] children_draw_capacitor [of svg]
        children_draw_inductor [of svg] children_draw_battery [of svg]
        children_draw_led [of svg] children_draw_switch [of svg]
        children_draw_ground [of svg] children_draw_generic [of svg])

lemma children_foldl_draw_component:
  "el_children (foldl draw_component svg cs) = el_children svg @ concat (map icon cs)"
  by (induction cs arbitrary: svg) (simp_all add: children_draw_component)

lemma children_svg_tree:
  "el_children (svg_tree self) =
     background self # wiring self @ concat (map icon (components self))"
  by (simp add: svg_tree_def Let_def children_foldl_draw_component
      children_draw_connections_wiring background_def)

text \<open>
  C3. The children of the rendered root are the background, the wiring and the icons, in
  this order. For fewer than two components the wiring is empty; for exactly two it is
  the one connecting line of the pair and no return path; for \<open>N \<ge> 3\<close> components it is
  the \<open>N - 1\<close> connecting lines of the neighbours, in list order, followed by the three
  segments of the return path from the last component to the first.
\<close>

theorem wiring_counts:
  "(length (components self) < 2 \<longrightarrow> wiring self = []) \<and>
   (length (components self) = 2 \<longrightarrow>
      wiring self = [adjacent_line (components self ! 0) (components self ! 1)]) \<and>
   (3 \<le> length (components self) \<longrightarrow>
      wiring self =
        map (\<lambda>i. adjacent_line (components self ! i) (components self ! (i + 1)))
            [0..<length (components self) - 1] @
        return_path (components self ! 0) (last (components self)) \<and>
      length (wiring self) = (length (components self) - 1) + 3) \<and>
   length (return_path (components self ! 0) (last (components self))) = 3 \<and>
   el_children (svg_tree self) =
     background self # wiring self @ concat (map icon (components self))"
proof (intro conjI impI)
  assume "length (components self) < 2"
  then show "wiring self = []" by (simp add: wiring_eq)
next
  assume two: "length (components self) = 2"
  have "[0..<2 - 1] = [0::nat]" by simp
  with two show "wiring self = [adjacent_line (components self ! 0) (components self ! 1)]"
    by (simp add: wiring_eq)
next
  assume three: "3 \<le> length (components self)"
  then show w: "wiring self =
        map (\<lambda>i. adjacent_line (components self ! i) (components self ! (i + 1)))
            [0..<length (components self) - 1] @
        return_path (components self ! 0) (last (components self))"
    by (simp add: wiring_eq)
  show "length (wiring self) = (length (components self) - 1) + 3"
    unfolding w by (simp add: return_path_def)
next
  show "length (return_path (components self ! 0) (last (components self))) = 3"
    by (simp add: return_path_def)
next
  show "el_children (svg_tree self) =
     background self # wiring self @ concat (map icon (components self))"
    by (rule children_svg_tree)
qed

text \<open>No component, the first two components of the default circuit, and all three of them.\<close>

theorem wiring_counts_witness:
  "wiring init = [] \<and>
   wiring (init\<lparr>components := take 2 default_circuit\<rparr>) =
     [adjacent_line (default_circuit ! 0) (default_circuit ! 1)] \<and>
   length (wiring (init\<lparr>components := default_circuit\<rparr>)) = 5"
proof -
  have a: "length (components init) < 2" by (simp add: init_def)
  have b: "length (components (init\<lparr>components := take 2 default_circuit\<rparr>)) = 2"
    by (simp add: default_circuit_def)
  have c: "3 \<le> length (components (init\<lparr>components := default_circuit\<rparr>))"
    by (simp add: default_circuit_def)
  have "wiring init = []"
    using wiring_counts [of init] a by blast
  moreover have "wiring (init\<lparr>components := take 2 default_circuit\<rparr>) =
     [adjacent_line (default_circuit ! 0) (default_circuit ! 1)]"
    using wiring_counts [of "init\<lparr>components := take 2 default_circuit\<rparr>"] b
    by (simp add: default_circuit_def)
  moreover have "length (wiring (init\<lparr>components := default_circuit\<rparr>)) = 5"
    using wiring_counts [of "init\<lparr>components := default_circuit\<rparr>"] c
    by (simp add: default_circuit_def)
  ultimately show ?thesis by blast
qed

section \<open>What rendering depends on\<close>

lemma draw_connections_cong:
  assumes "components g1 = components g2"
  shows "draw_connections g1 svg = draw_connections g2 svg"
  unfolding draw_connections_def assms ..

lemma svg_tree_cong:
  assumes "components g1 = components g2" and "svg_width g1 = svg_width g2"
    and "svg_height g1 = svg_height g2"
  shows "svg_tree g1 = svg_tree g2"
  unfolding svg_tree_def assms draw_connections_cong [OF assms(1)] ..

text \<open>
  C5. The rendered document depends on the component list and not on the connection
  list: two circuits with the same ordered components render to the same output,
  whatever their connections are.
\<close>

theorem render_ignores_connections:
  "fst (generate_svg (self\<lparr>components := cs, connections := conns1\<rparr>)) =
   fst (generate_svg (self\<lparr>components := cs, connections := conns2\<rparr>))"
proof -
  have "svg_tree (self\<lparr>components := cs, connections := conns1\<rparr>) =
        svg_tree (self\<lparr>components := cs, connections := conns2\<rparr>)"
    by (rule svg_tree_cong) simp_all
  then show ?thesis by (simp add: generate_svg_def)
qed

section \<open>Decimal strings\<close>

text \<open>Different integers have different decimal strings.\<close>

declare str_nat.simps [simp del]

lemma str_nat_nonempty: "str_nat n \<noteq> []"
  by (subst str_nat.simps) simp

lemma str_nat_digits: "c \<in> set (str_nat n) \<Longrightarrow> 48 \<le> c \<and> c \<le> 57"
proof (induction n rule: str_nat.induct)
  case (1 n)
  show ?case
  proof (cases "n < 10")
    case True
    with "1.prems" show ?thesis by (subst (asm) str_nat.simps) simp
  next
    case False
    from "1.prems" have "c \<in> set (str_nat (n div 10)) \<or> c = 48 + n mod 10"
      by (subst (asm) str_nat.simps) (auto simp add: False)
    then show ?thesis
    proof
      assume "c \<in> set (str_nat (n div 10))"
      with "1.IH" False show ?thesis by simp
    next
      assume "c = 48 + n mod 10"
      moreover have "n mod 10 < 10" by simp
      ultimately show ?thesis by linarith
    qed
  qed
qed

lemma str_nat_inj: "str_nat m = str_nat n \<Longrightarrow> m = n"
proof (induction m arbitrary: n rule: str_nat.induct)
  case (1 m)
  show ?case
  proof (cases "m < 10")
    case m: True
    show ?thesis
    proof (cases "n < 10")
      case True
      with m "1.prems" show ?thesis
        by (subst (asm) str_nat.simps, subst (asm) (2) str_nat.simps) simp
    next
      case False
      have "str_nat m = [48 + m]" using m by (subst str_nat.simps) simp
      moreover have "str_nat n = str_nat (n div 10) @ [48 + n mod 10]"
        using False by (subst str_nat.simps) simp
      ultimately have "str_nat (n div 10) = []" using "1.prems" by simp
      then show ?thesis by (simp add: str_nat_nonempty)
    qed
  next
    case m: False
    have em: "str_nat m = str_nat (m div 10) @ [48 + m mod 10]"
      using m by (subst str_nat.simps) simp
    show ?thesis
    proof (cases "n < 10")
      case True
      then have "str_nat n = [48 + n]" by (subst str_nat.simps) simp
      with em "1.prems" have "str_nat (m div 10) = []" by simp
      then show ?thesis by (simp add: str_nat_nonempty)
    next
      case False
      then have en: "str_nat n = str_nat (n div 10) @ [48 + n mod 10]"
        by (subst str_nat.simps) simp
      from em en "1.prems" have a: "str_nat (m div 10) = str_nat (n div 10)"
        and b: "m mod 10 = n mod 10" by simp_all
      from "1.IH" [OF m a] have "m div 10 = n div 10" .
      with b show ?thesis by (metis div_mult_mod_eq)
    qed
  qed
qed

lemma str_int_eq_iff [simp]: "str_int a = str_int b \<longleftrightarrow> a = b"
proof
  assume eq: "str_int a = str_int b"
  have hd: "hd (str_nat k) \<noteq> 45" for k
  proof -
    have "hd (str_nat k) \<in> set (str_nat k)" by (simp add: str_nat_nonempty)
    from str_nat_digits [OF this] show ?thesis by simp
  qed
  show "a = b"
  proof (cases "a < 0")
    case a: True
    show ?thesis
    proof (cases "b < 0")
      case True
      with a eq have "str_nat (nat (- a)) = str_nat (nat (- b))" by (simp add: str_int_def)
      then have "nat (- a) = nat (- b)" by (rule str_nat_inj)
      with a True show ?thesis by simp
    next
      case False
      with a eq have "45 # str_nat (nat (- a)) = str_nat (nat b)" by (simp add: str_int_def)
      then have "hd (str_nat (nat b)) = 45" by (metis list.sel(1))
      with hd show ?thesis by blast
    qed
  next
    case a: False
    show ?thesis
    proof (cases "b < 0")
      case True
      with a eq have "str_nat (nat a) = 45 # str_nat (nat (- b))" by (simp add: str_int_def)
      then have "hd (str_nat (nat a)) = 45" by (metis list.sel(1))
      with hd show ?thesis by blast
    next
      case False
      with a eq have "str_nat (nat a) = str_nat (nat b)" by (simp add: str_int_def)
      then have "nat a = nat b" by (rule str_nat_inj)
      with a False show ?thesis by simp
    qed
  qed
qed simp

section \<open>The leads of the icons\<close>

lemma is_lead_line [simp]:
  "is_lead ex y (Element ''line'' (line_attrs x1 y1 x2 y2 w) t cs) \<longleftrightarrow>
     y1 = y \<and> y2 = y \<and> (x1 = ex \<or> x2 = ex)"
  by (simp add: is_lead_def attr_def line_attrs_def)

lemma is_lead_other [simp]:
  "tg \<noteq> ''line'' \<Longrightarrow> is_lead ex y (Element tg at t cs) = False"
  by (simp add: is_lead_def)

section \<open>Extraction\<close>

text \<open>
  Matching on a given text is computed by unfolding the matcher; \<open>findall\<close> is unfolded
  only where this is asked for.
\<close>

declare findall.simps [simp del]

lemmas eval_regex = findall.simps detect_components_def patterns_def match_alts_def u_def
  case_variants_def char_matches_def run_length_def is_digit_def in_ranges_def digit_ranges_def

lemma concat_map_single:
  assumes "distinct (map fst ps)" and "(k, a) \<in> set ps"
    and "\<forall>(k', a')\<in>set ps. k' \<noteq> k \<longrightarrow> f k' a' = []"
  shows "concat (map (\<lambda>(k, a). f k a) ps) = f k a"
  using assms
proof (induction ps)
  case Nil
  then show ?case by simp
next
  case (Cons p ps)
  obtain k0 a0 where p: "p = (k0, a0)" by (cases p)
  show ?case
  proof (cases "k0 = k")
    case True
    with Cons.prems(1,2) p have a: "a0 = a"
      by (auto simp: image_iff)
    from True Cons.prems(1) p have "\<forall>(k', a')\<in>set ps. k' \<noteq> k"
      by (auto simp: image_iff)
    with Cons.prems(3) have "\<forall>(k', a')\<in>set ps. f k' a' = []" by auto
    then have "concat (map (\<lambda>(k, a). f k a) ps) = []" by auto
    with True a p show ?thesis by simp
  next
    case False
    with Cons.prems(2) p have "(k, a) \<in> set ps" by auto
    moreover from Cons.prems(1) have "distinct (map fst ps)" by simp
    moreover from Cons.prems(3) have "\<forall>(k', a')\<in>set ps. k' \<noteq> k \<longrightarrow> f k' a' = []" by simp
    ultimately have "concat (map (\<lambda>(k, a). f k a) ps) = f k a" using Cons.IH by blast
    moreover from False Cons.prems(3) p have "f k0 a0 = []" by auto
    ultimately show ?thesis by (simp add: p)
  qed
qed

lemma distinct_patterns: "distinct (map fst patterns)"
  by (simp add: patterns_def)

lemma components_parse_input_single:
  assumes "detect_components txt = [c]"
  shows "components (parse_input self txt) =
           [c\<lparr>comp_x := svg_width self div 2, comp_y := svg_height self div 2\<rparr>]"
  using assms by (simp add: parse_input_def calculate_positions_def Let_def)

lemma components_parse_input_init:
  assumes "detect_components txt = [\<lparr>comp_type = k, comp_name = nm, comp_x = 0, comp_y = 0\<rparr>]"
  shows "components (parse_input init txt) =
      [\<lparr>comp_type = k, comp_name = nm, comp_x = 400, comp_y = 300\<rparr>]"
  using components_parse_input_single [OF assms, of init] by (simp add: init_def)

text \<open>
  C9. When the pattern of exactly one kind matches the input, exactly once, and the
  pattern of no other kind matches, extraction yields exactly one component: it has
  that kind, its label is the matched text, and layout puts it at (400, 300).
\<close>

theorem single_match_single_component:
  assumes "(k, alts) \<in> set patterns"
    and "findall True alts txt = [(m, caps)]"
    and "\<forall>(k', alts')\<in>set patterns. k' \<noteq> k \<longrightarrow> findall True alts' txt = []"
  shows "components (parse_input init txt) =
           [\<lparr>comp_type = k, comp_name = m, comp_x = 400, comp_y = 300\<rparr>]"
proof -
  let ?f = "\<lambda>k alts. map (\<lambda>(m, caps). \<lparr>comp_type = k, comp_name = m, comp_x = 0, comp_y = 0\<rparr>)
                         (findall True alts txt)"
  have "\<forall>(k', alts')\<in>set patterns. k' \<noteq> k \<longrightarrow> ?f k' alts' = []"
    using assms(3) by auto
  from concat_map_single [of patterns k alts ?f, OF distinct_patterns assms(1) this]
  have "detect_components txt = ?f k alts" by (simp add: detect_components_def)
  then have "detect_components txt = [\<lparr>comp_type = k, comp_name = m, comp_x = 0, comp_y = 0\<rparr>]"
    by (simp add: assms(2))
  from components_parse_input_single [OF this, of init] show ?thesis
    by (simp add: init_def)
qed

text \<open>The input \<open>R1\<close>: one resistor with the label \<open>R1\<close>.\<close>

theorem single_match_single_component_witness:
  "components (parse_input init (u ''R1'')) =
     [\<lparr>comp_type = Resistor, comp_name = u ''R1'', comp_x = 400, comp_y = 300\<rparr>]"
proof -
  let ?alts = "[[Lit [0x62B5, 0x6297]], [Lit [0x30EC, 0x30B8, 0x30B9, 0x30BF]],
                [Lit (u ''R''), DigitStar]]"
  have a: "(Resistor, ?alts) \<in> set patterns" by (simp add: patterns_def)
  have b: "findall True ?alts (u ''R1'') = [(u ''R1'', [])]"
    by (simp add: eval_regex)
  have c: "\<forall>(k', alts')\<in>set patterns. k' \<noteq> Resistor \<longrightarrow> findall True alts' (u ''R1'') = []"
    by (simp add: eval_regex)
  from single_match_single_component [OF a b c] show ?thesis .
qed

text \<open>
  C10. A single bare designator letter, small or capital, is extracted as exactly one
  component of the kind of the letter, labelled with the letter as it was written; the
  default circuit is not substituted.
\<close>

theorem bare_designator_letters:
  "components (parse_input init (u ''r'')) =
     [\<lparr>comp_type = Resistor, comp_name = u ''r'', comp_x = 400, comp_y = 300\<rparr>] \<and>
   components (parse_input init (u ''R'')) =
     [\<lparr>comp_type = Resistor, comp_name = u ''R'', comp_x = 400, comp_y = 300\<rparr>] \<and>
   components (parse_input init (u ''c'')) =
     [\<lparr>comp_type = Capacitor, comp_name = u ''c'', comp_x = 400, comp_y = 300\<rparr>] \<and>
   components (parse_input init (u ''C'')) =
     [\<lparr>comp_type = Capacitor, comp_name = u ''C'', comp_x = 400, comp_y = 300\<rparr>] \<and>
   components (parse_input init (u ''l'')) =
     [\<lparr>comp_type = Inductor, comp_name = u ''l'', comp_x = 400, comp_y = 300\<rparr>] \<and>
   components (parse_input init (u ''L'')) =
     [\<lparr>comp_type = Inductor, comp_name = u ''L'', comp_x = 400, comp_y = 300\<rparr>] \<and>
   components (parse_input init (u ''v'')) =
     [\<lparr>comp_type = Voltage_source, comp_name = u ''v'', comp_x = 400, comp_y = 300\<rparr>] \<and>
   components (parse_input init (u ''V'')) =
     [\<lparr>comp_type = Voltage_source, comp_name = u ''V'', comp_x = 400, comp_y = 300\<rparr>] \<and>
   components (parse_input init (u ''i'')) =
     [\<lparr>comp_type = Current_source, comp_name = u ''i'', comp_x = 400, comp_y = 300\<rparr>] \<and>
   components (parse_input init (u ''I'')) =
     [\<lparr>comp_type = Current_source, comp_name = u ''I'', comp_x = 400, comp_y = 300\<rparr>]"
proof -
  have "detect_components (u ''r'') =
      [\<lparr>comp_type = Resistor, comp_name = u ''r'', comp_x = 0, comp_y = 0\<rparr>]"
    by (simp add: eval_regex)
  note r1 = components_parse_input_init [OF this]
  have "detect_components (u ''R'') =
      [\<lparr>comp_type = Resistor, comp_name = u ''R'', comp_x = 0, comp_y = 0\<rparr>]"
    by (simp add: eval_regex)
  note r2 = components_parse_input_init [OF this]
  have "detect_components (u ''c'') =
      [\<lparr>comp_type = Capacitor, comp_name = u ''c'', comp_x = 0, comp_y = 0\<rparr>]"
    by (simp add: eval_regex)
  note c1 = components_parse_input_init [OF this]
  have "detect_components (u ''C'') =
      [\<lparr>comp_type = Capacitor, comp_name = u ''C'', comp_x = 0, comp_y = 0\<rparr>]"
    by (simp add: eval_regex)
  note c2 = components_parse_input_init [OF this]
  have "detect_components (u ''l'') =
      [\<lparr>comp_type = Inductor, comp_name = u ''l'', comp_x = 0, comp_y = 0\<rparr>]"
    by (simp add: eval_regex)
  note l1 = components_parse_input_init [OF this]
  have "detect_components (u ''L'') =
      [\<lparr>comp_type = Inductor, comp_name = u ''L'', comp_x = 0, comp_y = 0\<rparr>]"
    by (simp add: eval_regex)
  note l2 = components_parse_input_init [OF this]
  have "detect_components (u ''v'') =
      [\<lparr>comp_type = Voltage_source, comp_name = u ''v'', comp_x = 0, comp_y = 0\<rparr>]"
    by (simp add: eval_regex)
  note v1 = components_parse_input_init [OF this]
  have "detect_components (u ''V'') =
      [\<lparr>comp_type = Voltage_source, comp_name = u ''V'', comp_x = 0, comp_y = 0\<rparr>]"
    by (simp add: eval_regex)
  note v2 = components_parse_input_init [OF this]
  have "detect_components (u ''i'') =
      [\<lparr>comp_type = Current_source, comp_name = u ''i'', comp_x = 0, comp_y = 0\<rparr>]"
    by (simp add: eval_regex)
  note i1 = components_parse_input_init [OF this]
  have "detect_components (u ''I'') =
      [\<lparr>comp_type = Current_source, comp_name = u ''I'', comp_x = 0, comp_y = 0\<rparr>]"
    by (simp add: eval_regex)
  note i2 = components_parse_input_init [OF this]
  from r1 r2 c1 c2 l1 l2 v1 v2 i1 i2 show ?thesis by blast
qed

section \<open>Texts without vocabulary\<close>

lemma first_some_None_iff: "first_some xs = None \<longleftrightarrow> (\<forall>x\<in>set xs. x = None)"
  by (induction xs rule: first_some.induct) simp_all


lemma match_items_start:
  assumes "starts_with_lit a" and "match_items ic a t = Some r"
  shows "t \<noteq> [] \<and> hd t \<in> set (alt_starts ic a)"
proof -
  from assms(1) obtain p ps its where a: "a = Lit (p # ps) # its"
    by (cases a rule: starts_with_lit.cases) simp_all
  from assms(2) have lp: "lit_prefix ic (p # ps) t"
    by (simp add: a split: if_splits)
  then obtain c cs where t: "t = c # cs" by (cases t) simp_all
  with lp have "char_matches ic p c" by simp
  then show ?thesis by (simp add: a t char_matches_def split: if_splits)
qed

lemma match_alts_None:
  assumes "list_all starts_with_lit alts"
    and "t = [] \<or> hd t \<notin> set (concat (map (alt_starts ic) alts))"
  shows "match_alts ic alts t = None"
proof -
  have "match_items ic a t = None" if "a \<in> set alts" for a
  proof (rule ccontr)
    assume "match_items ic a t \<noteq> None"
    then obtain r where "match_items ic a t = Some r" by blast
    moreover from that assms(1) have "starts_with_lit a" by (simp add: list_all_iff)
    ultimately have "t \<noteq> [] \<and> hd t \<in> set (alt_starts ic a)" by (rule match_items_start [rotated])
    with that assms(2) show False by auto
  qed
  then show ?thesis by (simp add: match_alts_def first_some_None_iff)
qed

lemma findall_no_start:
  assumes "list_all starts_with_lit alts"
    and "\<forall>c\<in>set t. c \<notin> set (concat (map (alt_starts ic) alts))"
  shows "findall ic alts t = []"
  using assms(2)
proof (induction t)
  case Nil
  have "match_alts ic alts [] = None" by (rule match_alts_None [OF assms(1)]) simp
  then show ?case by (subst findall.simps) simp
next
  case (Cons c t)
  have "match_alts ic alts (c # t) = None"
    by (rule match_alts_None [OF assms(1)]) (use Cons.prems in simp)
  moreover have "findall ic alts t = []" using Cons by simp
  ultimately show ?case by (subst findall.simps) simp
qed

lemma patterns_start_with_lit:
  "list_all (\<lambda>(k, alts). list_all starts_with_lit alts) patterns"
  by (simp add: patterns_def u_def)


lemma space_not_start:
  "list_all (\<lambda>(k, alts). list_all (\<lambda>c. \<not> is_space c) (concat (map (alt_starts True) alts))) patterns"
  by (simp add: patterns_def u_def case_variants_def is_space_def in_ranges_def space_ranges_def)

lemma no_vocabulary_space:
  assumes "list_all is_space txt"
  shows "no_vocabulary txt"
proof -
  have "findall True alts txt = []" if m: "(k, alts) \<in> set patterns" for k alts
  proof (rule findall_no_start)
    from patterns_start_with_lit m show "list_all starts_with_lit alts"
      by (auto simp: list_all_iff)
    from space_not_start m
    have "\<forall>c\<in>set (concat (map (alt_starts True) alts)). \<not> is_space c"
      by (auto simp: list_all_iff)
    with assms show "\<forall>c\<in>set txt. c \<notin> set (concat (map (alt_starts True) alts))"
      by (auto simp: list_all_iff)
  qed
  then show ?thesis by (auto simp: no_vocabulary_def list_all_iff)
qed

lemma detect_components_no_vocabulary:
  assumes "no_vocabulary txt"
  shows "detect_components txt = []"
  using assms by (auto simp: detect_components_def no_vocabulary_def list_all_iff)

text \<open>
  C1. When the pattern of none of the nine kinds matches the input, extraction yields
  exactly the default circuit: one battery, one resistor and one LED, in this order,
  with their fixed labels (and, for a new generator, at 200, 400 and 600 on the
  centreline 300). The empty text and every text of whitespace only are such inputs.
\<close>

theorem no_vocabulary_default_circuit:
  "(no_vocabulary txt \<longrightarrow>
      map (\<lambda>c. (comp_type c, comp_name c)) (components (parse_input self txt)) =
        [(Battery, [0x96FB, 0x6C60]), (Resistor, [0x62B5, 0x6297]), (Led, u ''LED'')] \<and>
      components (parse_input init txt) =
        [\<lparr>comp_type = Battery, comp_name = [0x96FB, 0x6C60], comp_x = 200, comp_y = 300\<rparr>,
         \<lparr>comp_type = Resistor, comp_name = [0x62B5, 0x6297], comp_x = 400, comp_y = 300\<rparr>,
         \<lparr>comp_type = Led, comp_name = u ''LED'', comp_x = 600, comp_y = 300\<rparr>]) \<and>
   (list_all is_space txt \<longrightarrow> no_vocabulary txt)"
proof (intro conjI impI)
  assume "no_vocabulary txt"
  then have d: "detect_components txt = []" by (rule detect_components_no_vocabulary)
  show "map (\<lambda>c. (comp_type c, comp_name c)) (components (parse_input self txt)) =
        [(Battery, [0x96FB, 0x6C60]), (Resistor, [0x62B5, 0x6297]), (Led, u ''LED'')]"
    by (simp add: parse_input_def d calculate_positions_def default_circuit_def Let_def)
  show "components (parse_input init txt) =
        [\<lparr>comp_type = Battery, comp_name = [0x96FB, 0x6C60], comp_x = 200, comp_y = 300\<rparr>,
         \<lparr>comp_type = Resistor, comp_name = [0x62B5, 0x6297], comp_x = 400, comp_y = 300\<rparr>,
         \<lparr>comp_type = Led, comp_name = u ''LED'', comp_x = 600, comp_y = 300\<rparr>]"
    by (simp add: parse_input_def d calculate_positions_def default_circuit_def Let_def init_def)
next
  assume "list_all is_space txt"
  then show "no_vocabulary txt" by (rule no_vocabulary_space)
qed

text \<open>The empty text, two spaces, and a text of unrelated letters.\<close>

theorem no_vocabulary_default_circuit_witness:
  "map comp_type (components (parse_input init [])) = [Battery, Resistor, Led] \<and>
   map comp_type (components (parse_input init (u ''  ''))) = [Battery, Resistor, Led] \<and>
   map comp_type (components (parse_input init (u ''xyz''))) = [Battery, Resistor, Led]"
proof -
  have s0: "list_all is_space []" by simp
  have s1: "list_all is_space (u ''  '')"
    by (simp add: u_def is_space_def in_ranges_def space_ranges_def)
  have s2: "no_vocabulary (u ''xyz'')"
    by (simp add: no_vocabulary_def eval_regex)
  have v0: "no_vocabulary []"
    using no_vocabulary_default_circuit [of "[]" init] s0 by blast
  have v1: "no_vocabulary (u ''  '')"
    using no_vocabulary_default_circuit [of "u ''  ''" init] s1 by blast
  have "map comp_type (components (parse_input init [])) = [Battery, Resistor, Led]"
    using no_vocabulary_default_circuit [of "[]" init] v0 by simp
  moreover have "map comp_type (components (parse_input init (u ''  ''))) = [Battery, Resistor, Led]"
    using no_vocabulary_default_circuit [of "u ''  ''" init] v1 by simp
  moreover have "map comp_type (components (parse_input init (u ''xyz''))) = [Battery, Resistor, Led]"
    using no_vocabulary_default_circuit [of "u ''xyz''" init] s2 by simp
  ultimately show ?thesis by blast
qed

section \<open>The icon of the ground\<close>

text \<open>
  The icon of every kind other than the ground has one lead that ends at \<open>x - 40\<close> and
  one that ends at \<open>x + 40\<close>, on the centreline.
\<close>

lemma other_icons_have_both_leads:
  assumes "k \<noteq> Ground"
  shows "length (lead_lines \<lparr>comp_type = k, comp_name = nm, comp_x = x, comp_y = y\<rparr> (x - 40)) = 1 \<and>
         length (lead_lines \<lparr>comp_type = k, comp_name = nm, comp_x = x, comp_y = y\<rparr> (x + 40)) = 1"
proof (cases k)
  case Resistor
  then show ?thesis
    by (simp add: lead_lines_def icon_def draw_component_def draw_resistor_def blank_def Let_def)
next
  case Capacitor
  then show ?thesis
    by (simp add: lead_lines_def icon_def draw_component_def draw_capacitor_def blank_def Let_def)
next
  case Inductor
  then show ?thesis
    by (simp add: lead_lines_def icon_def draw_component_def draw_inductor_def blank_def Let_def
        children_foldl_SubElement filter_map comp_def)
next
  case Battery
  then show ?thesis
    by (simp add: lead_lines_def icon_def draw_component_def draw_battery_def blank_def Let_def)
next
  case Led
  then show ?thesis
    by (simp add: lead_lines_def icon_def draw_component_def draw_led_def blank_def Let_def)
next
  case Switch
  then show ?thesis
    by (simp add: lead_lines_def icon_def draw_component_def draw_switch_def blank_def Let_def)
next
  case Ground
  with assms show ?thesis by simp
next
  case Voltage_source
  then show ?thesis
    by (simp add: lead_lines_def icon_def draw_component_def draw_generic_def blank_def Let_def)
next
  case Current_source
  then show ?thesis
    by (simp add: lead_lines_def icon_def draw_component_def draw_generic_def blank_def Let_def)
qed

lemma ground_then_source_components:
  "components (parse_input init (u ''GND V1'')) =
     [\<lparr>comp_type = Ground, comp_name = u ''GND'', comp_x = 266, comp_y = 300\<rparr>,
      \<lparr>comp_type = Voltage_source, comp_name = u ''V1'', comp_x = 532, comp_y = 300\<rparr>]"
proof -
  have "detect_components (u ''GND V1'') =
     [\<lparr>comp_type = Ground, comp_name = u ''GND'', comp_x = 0, comp_y = 0\<rparr>,
      \<lparr>comp_type = Voltage_source, comp_name = u ''V1'', comp_x = 0, comp_y = 0\<rparr>]"
    by (simp add: eval_regex)
  then show ?thesis
    by (simp add: parse_input_def calculate_positions_def Let_def init_def)
qed

text \<open>
  C4 does not hold of the code for the ground. The description \<open>GND V1\<close> gives a ground
  at (266, 300) followed by a voltage source at (532, 300). The wire between them starts
  at 306, which is 40 to the right of the ground; the icon of the ground has its one
  lead from 226 to 266 and no lead that ends at 306. The icon of the voltage source has
  both leads, ending at 492 and at 572.
\<close>

theorem ground_icon_misses_right_lead:
  "components (parse_input init (u ''GND V1'')) =
     [\<lparr>comp_type = Ground, comp_name = u ''GND'', comp_x = 266, comp_y = 300\<rparr>,
      \<lparr>comp_type = Voltage_source, comp_name = u ''V1'', comp_x = 532, comp_y = 300\<rparr>] \<and>
   wiring (parse_input init (u ''GND V1'')) =
     [Element ''line'' (line_attrs 306 300 492 300 ''2'') None []] \<and>
   lead_lines \<lparr>comp_type = Ground, comp_name = u ''GND'', comp_x = 266, comp_y = 300\<rparr> 226 =
     [Element ''line'' (line_attrs 226 300 266 300 ''2'') None []] \<and>
   lead_lines \<lparr>comp_type = Ground, comp_name = u ''GND'', comp_x = 266, comp_y = 300\<rparr> 306 = [] \<and>
   lead_lines \<lparr>comp_type = Voltage_source, comp_name = u ''V1'', comp_x = 532, comp_y = 300\<rparr> 492 =
     [Element ''line'' (line_attrs 492 300 512 300 ''2'') None []] \<and>
   lead_lines \<lparr>comp_type = Voltage_source, comp_name = u ''V1'', comp_x = 532, comp_y = 300\<rparr> 572 =
     [Element ''line'' (line_attrs 552 300 572 300 ''2'') None []]"
proof (intro conjI)
  show "components (parse_input init (u ''GND V1'')) =
     [\<lparr>comp_type = Ground, comp_name = u ''GND'', comp_x = 266, comp_y = 300\<rparr>,
      \<lparr>comp_type = Voltage_source, comp_name = u ''V1'', comp_x = 532, comp_y = 300\<rparr>]"
    by (rule ground_then_source_components)
  have "[0..<2 - 1] = [0::nat]" by simp
  then show "wiring (parse_input init (u ''GND V1'')) =
     [Element ''line'' (line_attrs 306 300 492 300 ''2'') None []]"
    by (simp add: wiring_eq ground_then_source_components adjacent_line_def)
  show "lead_lines \<lparr>comp_type = Ground, comp_name = u ''GND'', comp_x = 266, comp_y = 300\<rparr> 226 =
     [Element ''line'' (line_attrs 226 300 266 300 ''2'') None []]"
    by (simp add: lead_lines_def icon_def draw_component_def draw_ground_def blank_def Let_def)
  show "lead_lines \<lparr>comp_type = Ground, comp_name = u ''GND'', comp_x = 266, comp_y = 300\<rparr> 306 = []"
    by (simp add: lead_lines_def icon_def draw_component_def draw_ground_def blank_def Let_def)
  show "lead_lines \<lparr>comp_type = Voltage_source, comp_name = u ''V1'', comp_x = 532, comp_y = 300\<rparr> 492 =
     [Element ''line'' (line_attrs 492 300 512 300 ''2'') None []]"
    by (simp add: lead_lines_def icon_def draw_component_def draw_generic_def blank_def Let_def)
  show "lead_lines \<lparr>comp_type = Voltage_source, comp_name = u ''V1'', comp_x = 532, comp_y = 300\<rparr> 572 =
     [Element ''line'' (line_attrs 552 300 572 300 ''2'') None []]"
    by (simp add: lead_lines_def icon_def draw_component_def draw_generic_def blank_def Let_def)
qed

section \<open>The example sentence\<close>












section \<open>Rendering what extraction yields\<close>










lemma element_strings_SubElement:
  "element_strings (SubElement s tg at) = element_strings s @ map snd at"
  by (cases s) (simp add: SubElement_def)

lemma element_strings_SubElement_text:
  "element_strings (SubElement_text s tg at t) = element_strings s @ map snd at @ [t]"
  by (cases s) (simp add: SubElement_text_def)

lemma valid_SubElement [simp]:
  "valid_el (SubElement s tg at) \<longleftrightarrow> valid_el s \<and> list_all (list_all xml_char) (map snd at)"
  by (simp add: valid_el_def element_strings_SubElement)

lemma valid_SubElement_text [simp]:
  "valid_el (SubElement_text s tg at t) \<longleftrightarrow>
     valid_el s \<and> list_all (list_all xml_char) (map snd at) \<and> list_all xml_char t"
  by (simp add: valid_el_def element_strings_SubElement_text)


lemma valid_str_int [simp]: "list_all xml_char (str_int i)"
proof -
  have "xml_char c" if "c \<in> set (str_nat n)" for c n
  proof -
    from str_nat_digits [OF that] show ?thesis by (simp add: xml_char_def)
  qed
  then show ?thesis by (simp add: str_int_def xml_char_def list_all_iff)
qed

lemma valid_ascii [simp]:
  "list_all xml_char (u s) \<longleftrightarrow> list_all (\<lambda>c. xml_char (of_char c)) s"
  by (simp add: u_def list_all_iff)

lemma xml_char_of_char [simp]:
  "xml_char (of_char c) \<longleftrightarrow>
     (of_char c :: nat) = 9 \<or> (of_char c :: nat) = 10 \<or> (of_char c :: nat) = 13 \<or>
     32 \<le> (of_char c :: nat)"
proof -
  have "(of_char c :: nat) < 256" by (rule nat_of_char_less_256)
  then have "(of_char c :: nat) \<le> 55295" by linarith
  then show ?thesis unfolding xml_char_def by linarith
qed


lemma valid_line_attrs [simp]:
  "list_all (list_all xml_char) (map snd (line_attrs a b c d w)) \<longleftrightarrow> list_all xml_char (u w)"
  by (simp add: line_attrs_def)

lemma valid_text_attrs [simp]:
  "list_all (list_all xml_char) (map snd (text_attrs a b fs fl)) \<longleftrightarrow>
     list_all xml_char (u fs) \<and> list_all xml_char (u fl)"
  by (simp add: text_attrs_def)

















text \<open>
  Serialisation is not total: a text with a character that XML does not allow is
  refused by the parser. The names that extraction yields have no such character.
\<close>

lemma prettify_svg_can_fail:
  "prettify_svg (SubElement_text blank ''text'' [] [0]) = Inl ExpatError"
  by (simp add: prettify_svg_def SubElement_text_def blank_def is_surrogate_def xml_char_def)

end
